theory Spec2Isabelle
  imports Main "HOL-Library.Char_ord" "HOL-Library.List_Lexorder"
begin

section \<open>Replaceable entities and migration operations\<close>

text \<open>
  A shallow embedding of \<^verbatim>\<open>alembic_utils/replaceable_entity.py\<close>.

  A \<^verbatim>\<open>ReplaceableEntity\<close> is a value with three normalised strings; \<open>kind\<close> is the name of
  its class (\<^verbatim>\<open>self.__class__.__name__\<close>), which selects the subclass methods and is part
  of the cache key. The record holds the fields as \<^verbatim>\<open>__init__\<close> leaves them, after
  \<^verbatim>\<open>normalize_whitespace\<close> and \<^verbatim>\<open>strip_terminating_semicolon\<close>; \<open>defn\<close> is the
  attribute \<^verbatim>\<open>definition\<close>, a reserved word here.
\<close>

record entity =
  kind :: string
  schema :: string
  signature :: string
  defn :: string

text \<open>\<^verbatim>\<open>identity\<close>: the f-string \<^verbatim>\<open>f"{self.schema}.{self.signature}"\<close>.\<close>

definition identity :: "entity \<Rightarrow> string" where
  "identity e = schema e @ ''.'' @ signature e"

text \<open>The four operation classes; each wraps its \<^verbatim>\<open>target\<close>.\<close>

datatype op = CreateOp entity | DropOp entity | ReplaceOp entity | RevertOp entity

text \<open>
  Database calls, as they are issued on the connection. They are recorded in the state in
  the order the code makes them.
\<close>

datatype call =
    Connect
  | Close
  | Begin
  | TransactionRollback
  | BeginNested
  | Release
  | Rollback
  | Execute entity
  | IdentityQuery entity
  | DefinitionQuery entity
  | FromDatabase string string

text \<open>
  Exceptions as values. \<open>DatabaseError c\<close> is the error the driver raises from call \<open>c\<close>;
  \<open>TypeError\<close> is \<^verbatim>\<open>tuple(None)\<close> when \<^verbatim>\<open>fetchone()\<close> finds no row; \<open>AttributeError\<close> is an
  attribute access on \<^verbatim>\<open>None\<close>.
\<close>

datatype error =
    DuplicateRegistration string
  | FailedToGenerateComparable string
  | UnreachableException
  | NotImplementedError
  | DatabaseError call
  | TypeError
  | AttributeError

subsection \<open>Reversing operations\<close>

text \<open>
  Modelled from the spec: \<^verbatim>\<open>ReversibleOp.reverse\<close> of \<^verbatim>\<open>alembic_utils/reversible_op.py\<close>,
  which \<^verbatim>\<open>RevertOp\<close> inherits unchanged (its body is \<^verbatim>\<open>pass\<close>), is not among the sources.
  The spec says that reversing a Revert is illegal, a programming error; the base method
  is taken to raise \<open>NotImplementedError\<close>, as the other abstract methods of the module do.
\<close>

definition ReversibleOp_reverse :: "op \<Rightarrow> error + op" where
  "ReversibleOp_reverse self = Inl NotImplementedError"

fun reverse :: "op \<Rightarrow> error + op" where
  "reverse (CreateOp target) = Inr (DropOp target)"
| "reverse (DropOp target) = Inr (CreateOp target)"
| "reverse (ReplaceOp target) = Inr (RevertOp target)"
| "reverse (RevertOp target) = ReversibleOp_reverse (RevertOp target)"

text \<open>Calling \<open>reverse\<close> on the result of an earlier \<open>reverse\<close>; an error propagates.\<close>

definition reverse_result :: "error + op \<Rightarrow> error + op" where
  "reverse_result r = (case r of Inl e \<Rightarrow> Inl e | Inr x \<Rightarrow> reverse x)"

section \<open>The database session\<close>

text \<open>
  The concrete entity classes (functions, views, ...), their SQL templates and the
  database server are outside the module. They enter as a record of functions over an
  arbitrary type \<open>'db\<close> of database states, one field for each thing the module asks of them:
  \<^item> \<open>create_or_replace e d\<close>: \<^verbatim>\<open>sess.execute(e.to_sql_statement_create_or_replace())\<close> in
    state \<open>d\<close>; \<open>None\<close> when the statement raises;
  \<^item> \<open>identity_query e d\<close> and \<open>definition_query e d\<close>:
    \<^verbatim>\<open>sess.execute(e.get_compare_..._query()).fetchone()\<close>;
  \<^item> \<open>from_database k sc d\<close>: the classmethod \<^verbatim>\<open>from_database(sess, schema=sc)\<close> of class \<open>k\<close>;
    \<open>None\<close> when it raises;
  \<^item> \<open>subclasses\<close>: \<^verbatim>\<open>ReplaceableEntity.__subclasses__()\<close>, by class name.
\<close>

type_synonym row = "string list"

datatype fetched = QueryError | NoRow | Row row

record 'db backend =
  create_or_replace :: "entity \<Rightarrow> 'db \<Rightarrow> 'db option"
  identity_query :: "entity \<Rightarrow> 'db \<Rightarrow> fetched"
  definition_query :: "entity \<Rightarrow> 'db \<Rightarrow> fetched"
  from_database :: "string \<Rightarrow> string \<Rightarrow> 'db \<Rightarrow> entity list option"
  subclasses :: "string list"

text \<open>
  The state the module reads and writes:
  \<^item> \<open>db\<close>: the database as the connection sees it;
  \<^item> \<open>saved\<close>: the open transactions and savepoints of the connection, innermost first, each
    with the database state to which rolling it back returns;
  \<^item> \<open>cache\<close>: the class attribute \<^verbatim>\<open>_CACHE\<close>, keyed as the \<^verbatim>\<open>key=\<close> lambdas build it;
  \<^item> \<open>calls\<close>: the database calls made so far;
  \<^item> \<open>upgrade_ops\<close>: the list \<^verbatim>\<open>upgrade_ops.ops\<close> the comparator appends to.
\<close>

type_synonym cache_key = "string \<times> string \<times> string \<times> string \<times> string"

record 'db state =
  db :: 'db
  saved :: "'db list"
  cache :: "cache_key \<rightharpoonup> row"
  calls :: "call list"
  upgrade_ops :: "op list"

text \<open>A computation returns a value or raises, and leaves a state either way.\<close>

type_synonym ('db, 'a) prog = "'db state \<Rightarrow> (error + 'a) \<times> 'db state"

definition returnE :: "'a \<Rightarrow> ('db, 'a) prog" where
  "returnE x = (\<lambda>s. (Inr x, s))"

definition raise :: "error \<Rightarrow> ('db, 'a) prog" where
  "raise e = (\<lambda>s. (Inl e, s))"

definition bindE :: "('db, 'a) prog \<Rightarrow> ('a \<Rightarrow> ('db, 'b) prog) \<Rightarrow> ('db, 'b) prog" where
  "bindE m f = (\<lambda>s. case m s of (Inl e, s') \<Rightarrow> (Inl e, s') | (Inr x, s') \<Rightarrow> f x s')"

text \<open>\<^verbatim>\<open>try: m finally: fin\<close>, for a cleanup that does not raise.\<close>

definition try_finally :: "('db, 'a) prog \<Rightarrow> ('db state \<Rightarrow> 'db state) \<Rightarrow> ('db, 'a) prog" where
  "try_finally m fin = (\<lambda>s. case m s of (r, s') \<Rightarrow> (r, fin s'))"

text \<open>A list comprehension whose element expression may raise.\<close>

fun mapE :: "('a \<Rightarrow> ('db, 'b) prog) \<Rightarrow> 'a list \<Rightarrow> ('db, 'b list) prog" where
  "mapE f [] = returnE []"
| "mapE f (x # xs) = bindE (f x) (\<lambda>y. bindE (mapE f xs) (\<lambda>ys. returnE (y # ys)))"

definition record_call :: "call \<Rightarrow> 'db state \<Rightarrow> 'db state" where
  "record_call c s = s\<lparr>calls := calls s @ [c]\<rparr>"

text \<open>\<^verbatim>\<open>sess.begin_nested()\<close>: a savepoint on the current state.\<close>

definition begin_nested :: "'db state \<Rightarrow> 'db state" where
  "begin_nested s = record_call BeginNested (s\<lparr>saved := db s # saved s\<rparr>)"

text \<open>
  \<^verbatim>\<open>sess.rollback()\<close>: rolls the innermost open transaction back and closes it; a
  pass-through when none is open.
\<close>

definition rollback :: "'db state \<Rightarrow> 'db state" where
  "rollback s = record_call Rollback
     (case saved s of [] \<Rightarrow> s | d # ds \<Rightarrow> s\<lparr>db := d, saved := ds\<rparr>)"

text \<open>Leaving a savepoint without an error releases it and keeps its effects.\<close>

definition release :: "'db state \<Rightarrow> 'db state" where
  "release s = record_call Release
     (case saved s of [] \<Rightarrow> s | d # ds \<Rightarrow> s\<lparr>saved := ds\<rparr>)"

text \<open>
  \<^verbatim>\<open>with sess.begin_nested(): body\<close>. The transaction object is its own context manager:
  it commits (releases the savepoint) when the body returns and rolls back when it
  raises. Both act on the savepoint on top of the stack, which is the one opened here
  whenever the body closes what it opens.
\<close>

definition with_begin_nested :: "('db, 'a) prog \<Rightarrow> ('db, 'a) prog" where
  "with_begin_nested body = (\<lambda>s.
     case body (begin_nested s) of
       (Inl e, s') \<Rightarrow> (Inl e, rollback s')
     | (Inr x, s') \<Rightarrow> (Inr x, release s'))"

text \<open>\<^verbatim>\<open>sess.execute(entity.to_sql_statement_create_or_replace())\<close>.\<close>

definition execute :: "'db backend \<Rightarrow> entity \<Rightarrow> ('db, unit) prog" where
  "execute B entity = (\<lambda>s.
     case create_or_replace B entity (db s) of
       None \<Rightarrow> (Inl (DatabaseError (Execute entity)), record_call (Execute entity) s)
     | Some d \<Rightarrow> (Inr (), record_call (Execute entity) (s\<lparr>db := d\<rparr>)))"

text \<open>\<^verbatim>\<open>tuple(sess.execute(query).fetchone())\<close>.\<close>

definition fetchone :: "('db \<Rightarrow> fetched) \<Rightarrow> call \<Rightarrow> ('db, row) prog" where
  "fetchone query c = (\<lambda>s.
     case query (db s) of
       QueryError \<Rightarrow> (Inl (DatabaseError c), record_call c s)
     | NoRow \<Rightarrow> (Inl TypeError, record_call c s)
     | Row r \<Rightarrow> (Inr r, record_call c s))"

text \<open>\<^verbatim>\<open>cls.from_database(sess, schema=sc)\<close> for the class named \<open>k\<close>.\<close>

definition call_from_database :: "'db backend \<Rightarrow> string \<Rightarrow> string \<Rightarrow> ('db, entity list) prog" where
  "call_from_database B k sc = (\<lambda>s.
     case from_database B k sc (db s) of
       None \<Rightarrow> (Inl (DatabaseError (FromDatabase k sc)), record_call (FromDatabase k sc) s)
     | Some es \<Rightarrow> (Inr es, record_call (FromDatabase k sc) s))"

subsection \<open>The sandbox\<close>

text \<open>The \<^verbatim>\<open>for\<close> loop of \<^verbatim>\<open>simulate_entities\<close>; it stops at the first statement that raises.\<close>

fun execute_all :: "'db backend \<Rightarrow> entity list \<Rightarrow> ('db, unit) prog" where
  "execute_all B [] = returnE ()"
| "execute_all B (entity # entities) = bindE (execute B entity) (\<lambda>_. execute_all B entities)"

text \<open>
  \<^verbatim>\<open>with simulate_entities(sess, entities): body\<close>. The generator's \<^verbatim>\<open>try\<close> covers
  \<^verbatim>\<open>begin_nested\<close>, the statements and, through \<^verbatim>\<open>yield\<close>, the body of the \<^verbatim>\<open>with\<close>; its
  \<^verbatim>\<open>finally\<close> calls \<^verbatim>\<open>sess.rollback()\<close>.
\<close>

definition simulate_entities :: "'db backend \<Rightarrow> entity list \<Rightarrow> ('db, 'a) prog \<Rightarrow> ('db, 'a) prog" where
  "simulate_entities B entities body =
     try_finally (\<lambda>s. bindE (execute_all B entities) (\<lambda>_. body) (begin_nested s)) rollback"

subsection \<open>Comparables\<close>

text \<open>
  Modelled from the spec: the decorator \<^verbatim>\<open>cachedmethod\<close> of \<^verbatim>\<open>alembic_utils/cache.py\<close> is
  not among the sources. By the spec, a hit returns the stored value without
  recomputation, and a miss computes the value and stores it; a computation that raises
  stores nothing.
\<close>

definition cachedmethod :: "cache_key \<Rightarrow> ('db, row) prog \<Rightarrow> ('db, row) prog" where
  "cachedmethod k m = (\<lambda>s.
     case cache s k of
       Some v \<Rightarrow> (Inr v, s)
     | None \<Rightarrow> (case m s of
         (Inl e, s') \<Rightarrow> (Inl e, s')
       | (Inr v, s') \<Rightarrow> (Inr v, s'\<lparr>cache := (cache s')(k \<mapsto> v)\<rparr>)))"

definition identity_key :: "entity \<Rightarrow> cache_key" where
  "identity_key self = (kind self, ''identity'', schema self, signature self, defn self)"

definition definition_key :: "entity \<Rightarrow> cache_key" where
  "definition_key self = (kind self, ''definition'', schema self, signature self, defn self)"

definition get_identity_comparable :: "'db backend \<Rightarrow> entity \<Rightarrow> ('db, row) prog" where
  "get_identity_comparable B self =
     cachedmethod (identity_key self)
       (simulate_entities B [self] (fetchone (identity_query B self) (IdentityQuery self)))"

definition get_definition_comparable :: "'db backend \<Rightarrow> entity \<Rightarrow> ('db, row) prog" where
  "get_definition_comparable B self =
     cachedmethod (definition_key self)
       (simulate_entities B [self] (fetchone (definition_query B self) (DefinitionQuery self)))"

definition is_equal_definition :: "'db backend \<Rightarrow> entity \<Rightarrow> entity \<Rightarrow> ('db, bool) prog" where
  "is_equal_definition B self other =
     bindE (get_definition_comparable B self) (\<lambda>self_comparable.
     bindE (get_definition_comparable B other) (\<lambda>other_comparable.
     returnE (self_comparable = other_comparable)))"

definition is_equal_identity :: "'db backend \<Rightarrow> entity \<Rightarrow> entity \<Rightarrow> ('db, bool) prog" where
  "is_equal_identity B self other =
     bindE (get_identity_comparable B self) (\<lambda>self_comparable.
     bindE (get_identity_comparable B other) (\<lambda>other_comparable.
     returnE (self_comparable = other_comparable)))"

subsection \<open>Looking an entity up, and the operation it needs\<close>

definition get_database_definition :: "'db backend \<Rightarrow> entity \<Rightarrow> ('db, entity option) prog" where
  "get_database_definition B self =
     bindE (call_from_database B (kind self) (schema self)) (\<lambda>all_entities.
     bindE (mapE (is_equal_identity B self) all_entities) (\<lambda>flags.
     let matches = map fst (filter snd (zip all_entities flags)) in
     returnE (case matches of [] \<Rightarrow> None | db_match # _ \<Rightarrow> Some db_match)))"

text \<open>Python's \<^verbatim>\<open>any\<close> on a list of booleans.\<close>

definition any :: "bool list \<Rightarrow> bool" where
  "any bs = list_ex (\<lambda>b. b) bs"

definition get_required_migration_op :: "'db backend \<Rightarrow> entity \<Rightarrow> ('db, op option) prog" where
  "get_required_migration_op B self =
     bindE (call_from_database B (kind self) (schema self)) (\<lambda>entities_in_database.
     bindE (mapE (is_equal_definition B self) entities_in_database) (\<lambda>definition_flags.
     bindE (mapE (is_equal_identity B self) entities_in_database) (\<lambda>identity_flags.
     let found_identical = any definition_flags;
         found_signature = any identity_flags
     in returnE (if found_identical then None
                 else if found_signature then Some (ReplaceOp self)
                 else Some (CreateOp self)))))"

subsection \<open>Rendering a Revert\<close>

text \<open>
  Python string methods on the ASCII range: \<^verbatim>\<open>str.lower\<close>, \<^verbatim>\<open>str.strip\<close> without argument,
  and \<^verbatim>\<open>s.split("(")[0]\<close>, the part before the first parenthesis.
\<close>

definition lower_char :: "char \<Rightarrow> char" where
  "lower_char c = (if CHR ''A'' \<le> c \<and> c \<le> CHR ''Z'' then char_of (of_char c + (32::nat)) else c)"

definition lower :: "string \<Rightarrow> string" where
  "lower s = map lower_char s"

definition isspace :: "char \<Rightarrow> bool" where
  "isspace c = (c = CHR '' '' \<or> (CHR 0x09 \<le> c \<and> c \<le> CHR 0x0D) \<or> (CHR 0x1C \<le> c \<and> c \<le> CHR 0x1F))"

definition strip :: "string \<Rightarrow> string" where
  "strip s = rev (dropWhile isspace (rev (dropWhile isspace s)))"

definition before_paren :: "string \<Rightarrow> string" where
  "before_paren s = takeWhile (\<lambda>c. c \<noteq> CHR ''('') s"

definition to_variable_name :: "entity \<Rightarrow> string" where
  "to_variable_name self =
     (let schema_name = lower (schema self);
          object_name = lower (strip (before_paren (signature self)))
      in schema_name @ ''_'' @ object_name)"

text \<open>
  \<^verbatim>\<open>render_self_for_migration\<close>; \<open>repr\<close> is Python's \<^verbatim>\<open>repr\<close> on strings, a parameter. The
  template is a triple-quoted f-string: its line breaks and indentation are part of it.
\<close>

definition render_self_for_migration :: "(string \<Rightarrow> string) \<Rightarrow> entity \<Rightarrow> bool \<Rightarrow> string" where
  "render_self_for_migration repr self omit_definition =
     (let var_name = to_variable_name self;
          class_name = kind self;
          escaped_definition = (if \<not> omit_definition then defn self else ''# not required for op'');
          nl = [CHR 0x0A]; dq = [CHR 0x22]; indent = replicate 12 (CHR '' '')
      in var_name @ '' = '' @ class_name @ ''('' @ nl
         @ indent @ ''schema='' @ dq @ schema self @ dq @ '','' @ nl
         @ indent @ ''signature='' @ dq @ signature self @ dq @ '','' @ nl
         @ indent @ ''definition='' @ repr escaped_definition @ nl
         @ replicate 8 (CHR '' '') @ '')'' @ nl @ nl)"

fun target :: "op \<Rightarrow> entity" where
  "target (CreateOp t) = t"
| "target (DropOp t) = t"
| "target (ReplaceOp t) = t"
| "target (RevertOp t) = t"

text \<open>\<^verbatim>\<open>with engine.connect() as connection: body\<close>.\<close>

definition with_connection :: "('db, 'a) prog \<Rightarrow> ('db, 'a) prog" where
  "with_connection body = try_finally (\<lambda>s. body (record_call Connect s)) (record_call Close)"

text \<open>
  \<^verbatim>\<open>render_revert_entity\<close>. \<^verbatim>\<open>db_target.to_variable_name()\<close> is an attribute access on the
  result of \<^verbatim>\<open>get_database_definition\<close>, which raises when that result is \<^verbatim>\<open>None\<close>. The
  import statement added to \<^verbatim>\<open>autogen_context.imports\<close> is not part of the rendered text
  and is left out.
\<close>

definition render_revert_entity :: "'db backend \<Rightarrow> (string \<Rightarrow> string) \<Rightarrow> op \<Rightarrow> ('db, string) prog" where
  "render_revert_entity B repr operation =
     bindE (with_connection (get_database_definition B (target operation))) (\<lambda>db_target.
     case db_target of
       None \<Rightarrow> raise AttributeError
     | Some t \<Rightarrow>
         (let variable_name = to_variable_name t
          in returnE (render_self_for_migration repr t False
                      @ ''op.replace_entity('' @ variable_name @ '')'')))"

section \<open>The comparator\<close>

subsection \<open>Unique identities\<close>

text \<open>
  \<^verbatim>\<open>flu(entities).group_by(key=...)\<close> of the library flupy sorts by the key and then groups
  neighbours with equal keys, as \<^verbatim>\<open>itertools.groupby\<close> does.
\<close>

function groupby :: "('a \<Rightarrow> 'k) \<Rightarrow> 'a list \<Rightarrow> ('k \<times> 'a list) list" where
  "groupby key [] = []"
| "groupby key (x # xs) =
     (key x, x # takeWhile (\<lambda>y. key y = key x) xs)
       # groupby key (dropWhile (\<lambda>y. key y = key x) xs)"
  by pat_completeness auto
termination
  by (relation "measure (\<lambda>(key, xs). length xs)")
     (auto simp: length_dropWhile_le less_Suc_eq_le)

definition group_by :: "('a \<Rightarrow> 'k::linorder) \<Rightarrow> 'a list \<Rightarrow> ('k \<times> 'a list) list" where
  "group_by key xs = groupby key (sort_key key xs)"

text \<open>The loop that raises on the first group with more than one member.\<close>

fun check_groups :: "(string \<times> entity list) list \<Rightarrow> ('db, unit) prog" where
  "check_groups [] = returnE ()"
| "check_groups ((ident, function_group) # groups) =
     (if length function_group > 1 then raise (DuplicateRegistration ident)
      else check_groups groups)"

subsection \<open>Observed schemas\<close>

text \<open>
  \<^verbatim>\<open>schemas\<close> and \<^verbatim>\<open>exclude_schemas\<close> may be \<^verbatim>\<open>None\<close>; \<^verbatim>\<open>sqla_schemas\<close> may hold \<^verbatim>\<open>None\<close>. The
  order in which Python iterates over \<^verbatim>\<open>set(observed_schemas)\<close> is not specified;
  \<open>remdups\<close> fixes one order.
\<close>

definition observed_schemas ::
  "entity list \<Rightarrow> string list option \<Rightarrow> string list option \<Rightarrow> string option list \<Rightarrow> string list" where
  "observed_schemas entities schemas exclude_schemas sqla_schemas =
     (let observed = (case schemas of None \<Rightarrow> [] | Some ss \<Rightarrow> ss)
                     @ map the (filter (\<lambda>sc. sc \<noteq> None) sqla_schemas)
                     @ map schema entities
      in filter (\<lambda>x. x \<notin> set (case exclude_schemas of None \<Rightarrow> [] | Some xs \<Rightarrow> xs))
           (remdups observed))"

subsection \<open>Resolution order\<close>

text \<open>
  One trial of the inner loop: \<^verbatim>\<open>resolved_entities.append(entity)\<close> is the body of the two
  \<^verbatim>\<open>with\<close> blocks, so the entity is kept exactly when the statements before it did not
  raise; the bare \<^verbatim>\<open>except\<close> swallows every error.
\<close>

definition try_place :: "'db backend \<Rightarrow> entity list \<Rightarrow> entity \<Rightarrow> 'db state \<Rightarrow> entity list \<times> 'db state" where
  "try_place B resolved_entities entity s =
     (case with_begin_nested
             (simulate_entities B (resolved_entities @ [entity]) (returnE ())) s of
        (Inl e, s') \<Rightarrow> (resolved_entities, s')
      | (Inr u, s') \<Rightarrow> (resolved_entities @ [entity], s'))"

text \<open>
  \<^verbatim>\<open>entity in resolved_entities\<close> compares objects by identity, the class defining no
  \<^verbatim>\<open>__eq__\<close>. Past the uniqueness check no two list members have the same fields, so that
  equality of the records decides the same.
\<close>

fun resolve_pass :: "'db backend \<Rightarrow> entity list \<Rightarrow> entity list \<Rightarrow> 'db state \<Rightarrow> entity list \<times> 'db state" where
  "resolve_pass B [] resolved_entities s = (resolved_entities, s)"
| "resolve_pass B (entity # entities) resolved_entities s =
     (if entity \<in> set resolved_entities then resolve_pass B entities resolved_entities s
      else case try_place B resolved_entities entity s of
             (resolved', s') \<Rightarrow> resolve_pass B entities resolved' s')"

text \<open>\<^verbatim>\<open>for _ in range(n)\<close> around the pass.\<close>

fun resolve_passes :: "'db backend \<Rightarrow> nat \<Rightarrow> entity list \<Rightarrow> entity list \<Rightarrow> 'db state \<Rightarrow> entity list \<times> 'db state" where
  "resolve_passes B 0 entities resolved_entities s = (resolved_entities, s)"
| "resolve_passes B (Suc n) entities resolved_entities s =
     (case resolve_pass B entities resolved_entities s of
        (resolved', s') \<Rightarrow> resolve_passes B n entities resolved' s')"

definition resolve_entities :: "'db backend \<Rightarrow> entity list \<Rightarrow> ('db, entity list) prog" where
  "resolve_entities B entities = (\<lambda>s.
     case resolve_passes B (length entities) entities [] s of
       (resolved_entities, s') \<Rightarrow> (Inr resolved_entities, s'))"

text \<open>
  The loop after the resolver: the first entity left unresolved is simulated once more;
  an error there becomes \<open>FailedToGenerateComparable\<close> with the entity's signature, and
  leaving the \<^verbatim>\<open>with\<close> block without one raises \<open>UnreachableException\<close>.
\<close>

fun check_unresolved :: "'db backend \<Rightarrow> entity list \<Rightarrow> entity list \<Rightarrow> ('db, unit) prog" where
  "check_unresolved B [] resolved_entities = returnE ()"
| "check_unresolved B (entity # entities) resolved_entities =
     (if entity \<notin> set resolved_entities then
        bindE (with_begin_nested (\<lambda>s.
                 case simulate_entities B (resolved_entities @ [entity]) (returnE ()) s of
                   (Inl e, s') \<Rightarrow> (Inl (FailedToGenerateComparable (signature entity)), s')
                 | (Inr u, s') \<Rightarrow> (Inr (), s')))
              (\<lambda>_. raise UnreachableException)
      else check_unresolved B entities resolved_entities)"

subsection \<open>Create and Replace\<close>

definition append_op :: "op \<Rightarrow> ('db, unit) prog" where
  "append_op operation = (\<lambda>s. (Inr (), s\<lparr>upgrade_ops := upgrade_ops s @ [operation]\<rparr>))"

text \<open>
  The loop over \<^verbatim>\<open>resolved_entities\<close>: each entity is compared inside a sandbox holding the
  entities before it in the resolved order. The two log messages are left out.
\<close>

fun diff_entities :: "'db backend \<Rightarrow> entity list \<Rightarrow> entity list \<Rightarrow> ('db, unit) prog" where
  "diff_entities B resolved_entities [] = returnE ()"
| "diff_entities B resolved_entities (local_entity # rest) =
     (let possible_dependencies = takeWhile (\<lambda>x. x \<noteq> local_entity) resolved_entities in
      bindE (simulate_entities B possible_dependencies (get_required_migration_op B local_entity))
        (\<lambda>maybe_op.
      bindE (case maybe_op of None \<Rightarrow> returnE () | Some operation \<Rightarrow> append_op operation)
        (\<lambda>_.
      diff_entities B resolved_entities rest)))"

subsection \<open>Drop\<close>

text \<open>The \<^verbatim>\<open>for ... else\<close> over the declared entities: \<open>True\<close> when the loop breaks.\<close>

fun find_local :: "'db backend \<Rightarrow> entity \<Rightarrow> entity list \<Rightarrow> ('db, bool) prog" where
  "find_local B db_entity [] = returnE False"
| "find_local B db_entity (local_entity # entities) =
     bindE (is_equal_identity B db_entity local_entity) (\<lambda>equal.
     if equal then returnE True else find_local B db_entity entities)"

fun drop_db_entities :: "'db backend \<Rightarrow> entity list \<Rightarrow> entity list \<Rightarrow> ('db, unit) prog" where
  "drop_db_entities B entities [] = returnE ()"
| "drop_db_entities B entities (db_entity # db_entities) =
     bindE (find_local B db_entity entities) (\<lambda>found.
     bindE (if found then returnE () else append_op (DropOp db_entity)) (\<lambda>_.
     drop_db_entities B entities db_entities))"

fun drop_classes :: "'db backend \<Rightarrow> entity list \<Rightarrow> string \<Rightarrow> string list \<Rightarrow> ('db, unit) prog" where
  "drop_classes B entities sc [] = returnE ()"
| "drop_classes B entities sc (entity_class # classes) =
     bindE (call_from_database B entity_class sc) (\<lambda>db_entities.
     bindE (drop_db_entities B entities db_entities) (\<lambda>_.
     drop_classes B entities sc classes))"

fun drop_schemas :: "'db backend \<Rightarrow> entity list \<Rightarrow> string list \<Rightarrow> ('db, unit) prog" where
  "drop_schemas B entities [] = returnE ()"
| "drop_schemas B entities (sc # schemas) =
     bindE (drop_classes B entities sc (subclasses B)) (\<lambda>_.
     drop_schemas B entities schemas)"

subsection \<open>The whole comparison\<close>

text \<open>
  \<^verbatim>\<open>connection.begin()\<close> opens the parent transaction and returns its handle, here the depth
  of the stack below it; \<^verbatim>\<open>transaction.rollback()\<close> rolls back to the state saved at that
  depth, discarding every savepoint above, and does nothing when the transaction is no
  longer open.
\<close>

definition connection_begin :: "'db state \<Rightarrow> 'db state" where
  "connection_begin s = record_call Begin (s\<lparr>saved := db s # saved s\<rparr>)"

definition transaction_rollback :: "nat \<Rightarrow> 'db state \<Rightarrow> 'db state" where
  "transaction_rollback h s = record_call TransactionRollback
     (let k = length (saved s) - h
      in if k = 0 then s else s\<lparr>db := saved s ! (k - 1), saved := drop k (saved s)\<rparr>)"

definition compare_registered_entities ::
  "'db backend \<Rightarrow> entity list \<Rightarrow> string list option \<Rightarrow> string list option \<Rightarrow> string option list
     \<Rightarrow> ('db, unit) prog" where
  "compare_registered_entities B entities schemas exclude_schemas sqla_schemas =
     bindE (check_groups (group_by identity entities)) (\<lambda>_.
     let observed = observed_schemas entities schemas exclude_schemas sqla_schemas in
     with_connection (\<lambda>s.
       let transaction = length (saved s) in
       try_finally
         (\<lambda>s1.
            bindE (resolve_entities B entities) (\<lambda>resolved_entities.
            bindE (check_unresolved B entities resolved_entities) (\<lambda>_.
            bindE (diff_entities B resolved_entities resolved_entities) (\<lambda>_.
            drop_schemas B entities observed))) (begin_nested s1))
         (transaction_rollback transaction)
         (connection_begin s)))"

section \<open>Notions used in the statements\<close>

text \<open>
  What a list of create-or-replace statements does to a database state, without the
  session around it: the statements issued (up to and including the first that raises),
  the state they leave, and whether all of them succeeded.
\<close>

fun run_statements :: "'db backend \<Rightarrow> entity list \<Rightarrow> 'db \<Rightarrow> entity list \<times> 'db \<times> bool" where
  "run_statements B [] d = ([], d, True)"
| "run_statements B (e # es) d =
     (case create_or_replace B e d of
        None \<Rightarrow> ([e], d, False)
      | Some d' \<Rightarrow> (case run_statements B es d' of (issued, r) \<Rightarrow> (e # issued, r)))"

definition materializes :: "'db backend \<Rightarrow> entity list \<Rightarrow> 'db \<Rightarrow> bool" where
  "materializes B es d = snd (snd (run_statements B es d))"

text \<open>The comparables of an entity as the cache holds them in a state.\<close>

definition identity_comparable :: "'db state \<Rightarrow> entity \<Rightarrow> row option" where
  "identity_comparable s e = cache s (identity_key e)"

definition definition_comparable :: "'db state \<Rightarrow> entity \<Rightarrow> row option" where
  "definition_comparable s e = cache s (definition_key e)"

text \<open>
  \<open>ext P s s'\<close>: from \<open>s\<close> to \<open>s'\<close> the stack of open transactions is the same, the cache has
  only grown, calls were only added, and the operations added all satisfy \<open>P\<close>. A
  computation \<open>keeps\<close> the session when every run is such a step and also leaves the
  visible database as it found it.
\<close>

definition ext :: "(op \<Rightarrow> bool) \<Rightarrow> 'db state \<Rightarrow> 'db state \<Rightarrow> bool" where
  "ext P s s' \<longleftrightarrow>
     saved s' = saved s \<and> cache s \<subseteq>\<^sub>m cache s'
     \<and> (\<exists>c. calls s' = calls s @ c)
     \<and> (\<exists>ops. upgrade_ops s' = upgrade_ops s @ ops \<and> list_all P ops)"

definition keeps_stack :: "(op \<Rightarrow> bool) \<Rightarrow> ('db, 'a) prog \<Rightarrow> bool" where
  "keeps_stack P m \<longleftrightarrow> (\<forall>s. ext P s (snd (m s)))"

definition keeps :: "(op \<Rightarrow> bool) \<Rightarrow> ('db, 'a) prog \<Rightarrow> bool" where
  "keeps P m \<longleftrightarrow> (\<forall>s. ext P s (snd (m s)) \<and> db (snd (m s)) = db s)"

text \<open>
  The resolver loop without the session: \<open>ok l\<close> says whether the list \<open>l\<close> can be created in
  this order on the database the loop starts from.
\<close>

fun place_pass :: "(entity list \<Rightarrow> bool) \<Rightarrow> entity list \<Rightarrow> entity list \<Rightarrow> entity list" where
  "place_pass ok [] resolved = resolved"
| "place_pass ok (e # es) resolved =
     (if e \<in> set resolved then place_pass ok es resolved
      else if ok (resolved @ [e]) then place_pass ok es (resolved @ [e])
      else place_pass ok es resolved)"

fun place_passes :: "(entity list \<Rightarrow> bool) \<Rightarrow> nat \<Rightarrow> entity list \<Rightarrow> entity list \<Rightarrow> entity list" where
  "place_passes ok 0 es resolved = resolved"
| "place_passes ok (Suc n) es resolved = place_passes ok n es (place_pass ok es resolved)"

text \<open>\<open>a\<close> comes before \<open>b\<close> in a list: \<open>a\<close> is among the elements in front of the first \<open>b\<close>.\<close>

definition precedes :: "'a \<Rightarrow> 'a \<Rightarrow> 'a list \<Rightarrow> bool" where
  "precedes a b xs \<longleftrightarrow> a \<in> set (takeWhile (\<lambda>x. x \<noteq> b) xs)"

text \<open>
  A list in dependency order, all of whose prefixes can be created: what the resolver
  maintains.
\<close>

definition resolved_ok ::
  "(entity list \<Rightarrow> bool) \<Rightarrow> (entity \<Rightarrow> entity set) \<Rightarrow> entity list \<Rightarrow> entity list \<Rightarrow> bool" where
  "resolved_ok ok deps es resolved \<longleftrightarrow>
     distinct resolved \<and> set resolved \<subseteq> set es \<and> ok resolved
     \<and> (\<forall>b\<in>set resolved. \<forall>a\<in>deps b. precedes a b resolved)"

text \<open>
  A live entity has a counterpart among the declared entities when its identity comparable
  has been computed and equals that of one of them.
\<close>

definition has_counterpart :: "'db state \<Rightarrow> entity list \<Rightarrow> entity \<Rightarrow> bool" where
  "has_counterpart s es x \<longleftrightarrow>
     (\<exists>l\<in>set es. identity_comparable s x \<noteq> None
                 \<and> identity_comparable s l = identity_comparable s x)"

fun is_create_or_replace :: "op \<Rightarrow> bool" where
  "is_create_or_replace (CreateOp t) = True"
| "is_create_or_replace (ReplaceOp t) = True"
| "is_create_or_replace (DropOp t) = False"
| "is_create_or_replace (RevertOp t) = False"

fun is_drop :: "op \<Rightarrow> bool" where
  "is_drop (DropOp t) = True"
| "is_drop (CreateOp t) = False"
| "is_drop (ReplaceOp t) = False"
| "is_drop (RevertOp t) = False"

section \<open>A small database\<close>

text \<open>
  An instance of the backend on which the statements below are exercised. The database
  is the list of its live entities. A definition of the form \<^verbatim>\<open>from NAME\<close> refers to the
  entity with signature \<^verbatim>\<open>NAME\<close> in the same schema, and creating it fails while that one
  is missing. The identity query returns schema and signature of the stored object, the
  definition query its body.
\<close>

definition refs :: "entity \<Rightarrow> string list" where
  "refs e = (if take 5 (defn e) = ''from '' then [drop 5 (defn e)] else [])"

definition same_address :: "entity \<Rightarrow> entity \<Rightarrow> bool" where
  "same_address a b \<longleftrightarrow> kind a = kind b \<and> schema a = schema b \<and> signature a = signature b"

definition small_create_or_replace :: "entity \<Rightarrow> entity list \<Rightarrow> entity list option" where
  "small_create_or_replace e d =
     (if list_all (\<lambda>r. list_ex (\<lambda>x. schema x = schema e \<and> signature x = r) d) (refs e)
      then Some (e # filter (\<lambda>x. \<not> same_address e x) d) else None)"

definition small_identity_query :: "entity \<Rightarrow> entity list \<Rightarrow> fetched" where
  "small_identity_query e d =
     (case filter (same_address e) d of [] \<Rightarrow> NoRow | x # _ \<Rightarrow> Row [schema x, signature x])"

definition small_definition_query :: "entity \<Rightarrow> entity list \<Rightarrow> fetched" where
  "small_definition_query e d =
     (case filter (same_address e) d of [] \<Rightarrow> NoRow | x # _ \<Rightarrow> Row [defn x])"

definition small_from_database :: "string \<Rightarrow> string \<Rightarrow> entity list \<Rightarrow> entity list option" where
  "small_from_database k sc d = Some (filter (\<lambda>x. kind x = k \<and> schema x = sc) d)"

definition small_db :: "entity list backend" where
  "small_db = \<lparr>create_or_replace = small_create_or_replace,
              identity_query = small_identity_query,
              definition_query = small_definition_query,
              from_database = small_from_database,
              subclasses = [''PGFunction'', ''PGView'']\<rparr>"

definition view :: "string \<Rightarrow> string \<Rightarrow> entity" where
  "view name body = \<lparr>kind = ''PGView'', schema = ''public'', signature = name, defn = body\<rparr>"

definition session :: "entity list \<Rightarrow> entity list state" where
  "session live = \<lparr>db = live, saved = [], cache = Map.empty, calls = [], upgrade_ops = []\<rparr>"

section \<open>The reverse law\<close>

text \<open>
  C5. For every entity \<open>x\<close>: the reverse of Create is Drop, of Drop is Create, of Replace
  is Revert; reversing Create twice gives Create back; reversing a Revert is an error.
\<close>

theorem reverse_law:
  "reverse (CreateOp x) = Inr (DropOp x)
   \<and> reverse (DropOp x) = Inr (CreateOp x)
   \<and> reverse (ReplaceOp x) = Inr (RevertOp x)
   \<and> reverse_result (reverse (CreateOp x)) = Inr (CreateOp x)
   \<and> (\<exists>e. reverse (RevertOp x) = Inl e)"
  by (simp add: reverse_result_def ReversibleOp_reverse_def)

end
